theory Spec2Isabelle
  imports Main
begin

section \<open>JavaScript values and results\<close>

text \<open>
  The schema code inspects a value in two ways only: \<open>=== undefined\<close> and
  \<open>=== null\<close>. A JavaScript value is therefore \<open>undefined\<close>, \<open>null\<close>, or any
  other value, whose representation \<open>'a\<close> is left open. Domain values (\<open>unknown\<close>),
  \<open>MsgpackEncodingData\<close> and \<open>JSONEncodingData\<close> are all JavaScript values.

  A method that may throw returns \<open>'e + 'b\<close>: \<open>Inl\<close> carries the thrown value, \<open>Inr\<close>
  the returned one.
\<close>

datatype 'a jsval = Undefined | Null | Value 'a

section \<open>The Schema interface\<close>

text \<open>
  \<open>Schema\<close> is the abstract class imported from \<open>../encoding.js\<close>; its six abstract
  methods are the interface every schema implements. A schema class other than
  \<open>OptionalSchema\<close> is given by its six method bodies, which are parameters here.
  \<open>isDefaultValue\<close>, the \<open>prepare\<close> and the \<open>fromPrepared\<close> methods may throw.
\<close>

record ('a, 'e) SchemaImpl =
  impl_defaultValue :: "'a jsval"
  impl_isDefaultValue :: "'a jsval \<Rightarrow> 'e + bool"
  impl_prepareMsgpack :: "'a jsval \<Rightarrow> 'e + 'a jsval"
  impl_fromPreparedMsgpack :: "'a jsval \<Rightarrow> 'e + 'a jsval"
  impl_prepareJSON :: "'a jsval \<Rightarrow> 'e + 'a jsval"
  impl_fromPreparedJSON :: "'a jsval \<Rightarrow> 'e + 'a jsval"

text \<open>
  A schema object is an instance of \<open>OptionalSchema\<close>, holding its
  \<open>public readonly valueSchema\<close>, or an instance of some other schema class.
\<close>

datatype ('a, 'e) Schema =
    OtherSchema "('a, 'e) SchemaImpl"
  | OptionalSchema (valueSchema: "('a, 'e) Schema")

section \<open>OptionalSchema (src/encoding/schema/optional.ts)\<close>

text \<open>
  \<open>constructor(public readonly valueSchema: Schema) { super(); }\<close>: the body stores
  the parameter and calls the constructor of the abstract base class; it has no check
  and no \<open>throw\<close>.
\<close>

definition OptionalSchema_constructor :: "('a, 'e) Schema \<Rightarrow> 'e + ('a, 'e) Schema" where
  "OptionalSchema_constructor S = Inr (OptionalSchema S)"

text \<open>
  Each method is dispatched on the class of the receiver; the \<open>OptionalSchema\<close>
  equations are the method bodies of the source, \<open>this.valueSchema.m(x)\<close> being the
  recursive call.
\<close>

fun defaultValue :: "('a, 'e) Schema \<Rightarrow> 'a jsval" where
  "defaultValue (OtherSchema m) = impl_defaultValue m"
| "defaultValue (OptionalSchema S) = Undefined"

fun isDefaultValue :: "('a, 'e) Schema \<Rightarrow> 'a jsval \<Rightarrow> 'e + bool" where
  "isDefaultValue (OtherSchema m) data = impl_isDefaultValue m data"
| "isDefaultValue (OptionalSchema S) data =
     (if data = Undefined then Inr True else isDefaultValue S data)"

fun prepareMsgpack :: "('a, 'e) Schema \<Rightarrow> 'a jsval \<Rightarrow> 'e + 'a jsval" where
  "prepareMsgpack (OtherSchema m) data = impl_prepareMsgpack m data"
| "prepareMsgpack (OptionalSchema S) data =
     (if data = Undefined then Inr Undefined else prepareMsgpack S data)"

fun fromPreparedMsgpack :: "('a, 'e) Schema \<Rightarrow> 'a jsval \<Rightarrow> 'e + 'a jsval" where
  "fromPreparedMsgpack (OtherSchema m) encoded = impl_fromPreparedMsgpack m encoded"
| "fromPreparedMsgpack (OptionalSchema S) encoded =
     (if encoded = Undefined \<or> encoded = Null then Inr Undefined
      else fromPreparedMsgpack S encoded)"

fun prepareJSON :: "('a, 'e) Schema \<Rightarrow> 'a jsval \<Rightarrow> 'e + 'a jsval" where
  "prepareJSON (OtherSchema m) data = impl_prepareJSON m data"
| "prepareJSON (OptionalSchema S) data =
     (if data = Undefined then Inr Null else prepareJSON S data)"

fun fromPreparedJSON :: "('a, 'e) Schema \<Rightarrow> 'a jsval \<Rightarrow> 'e + 'a jsval" where
  "fromPreparedJSON (OtherSchema m) encoded = impl_fromPreparedJSON m encoded"
| "fromPreparedJSON (OptionalSchema S) encoded =
     (if encoded = Undefined \<or> encoded = Null then Inr Undefined
      else fromPreparedJSON S encoded)"

subsection \<open>The msgpack round trip\<close>

text \<open>
  \<open>andThen r f\<close> is \<open>f(r)\<close> in JavaScript: when evaluating \<open>r\<close> throws, \<open>f\<close> is not
  called and the exception propagates. The round trip of a schema is
  \<open>fromPreparedMsgpack(prepareMsgpack(v))\<close>.
\<close>

definition andThen :: "'e + 'b \<Rightarrow> ('b \<Rightarrow> 'e + 'c) \<Rightarrow> 'e + 'c" where
  "andThen r f = (case r of Inl e \<Rightarrow> Inl e | Inr x \<Rightarrow> f x)"

definition msgpackRoundTrip :: "('a, 'e) Schema \<Rightarrow> 'a jsval \<Rightarrow> 'e + 'a jsval" where
  "msgpackRoundTrip S v = andThen (prepareMsgpack S v) (fromPreparedMsgpack S)"

subsection \<open>An example inner schema\<close>

text \<open>
  An inhabitant of the interface, used to instantiate the theorems below at concrete
  inputs; it is not one of the modelled source files. It accepts non-negative integers
  given either as a number or as a bigint, and normalises both to a bigint, so that its
  round trip changes \<open>Number n\<close> into \<open>BigInt n\<close>.
\<close>

datatype uintval = Number int | BigInt int

fun ensureUint :: "uintval jsval \<Rightarrow> string + uintval jsval" where
  "ensureUint (Value (Number n)) =
     (if 0 \<le> n then Inr (Value (BigInt n)) else Inl ''negative'')"
| "ensureUint (Value (BigInt n)) =
     (if 0 \<le> n then Inr (Value (BigInt n)) else Inl ''negative'')"
| "ensureUint Undefined = Inl ''not a uint''"
| "ensureUint Null = Inl ''not a uint''"

definition exampleImpl :: "(uintval, string) SchemaImpl" where
  "exampleImpl =
     \<lparr> impl_defaultValue = Value (BigInt 0),
       impl_isDefaultValue = (\<lambda>v. Inr (v = Value (Number 0) \<or> v = Value (BigInt 0))),
       impl_prepareMsgpack = ensureUint,
       impl_fromPreparedMsgpack = ensureUint,
       impl_prepareJSON = ensureUint,
       impl_fromPreparedJSON = ensureUint \<rparr>"

definition exampleSchema :: "(uintval, string) Schema" where
  "exampleSchema = OtherSchema exampleImpl"

section \<open>LookupAccountAppLocalStates (src/client/v2/indexer/lookupAccountAppLocalStates.ts)\<close>

text \<open>
  The values the builder methods store in \<open>this.query\<close>: a \<open>number\<close> (its
  representation \<open>'n\<close> is left open), a \<open>string\<close> or a \<open>boolean\<close>.
\<close>

datatype 'n queryValue = QNumber 'n | QString string | QBoolean bool

text \<open>
  The base class \<open>JSONRequest\<close> is imported from \<open>../jsonrequest.js\<close>. The methods of
  the subclass use its field \<open>query\<close>, an object from keys to values; whatever else
  \<open>super(c, intDecoding)\<close> stores is the field \<open>inherited\<close>, of an open type \<open>'s\<close>.
  The subclass adds the private field \<open>account\<close>.
\<close>

record ('s, 'n) JSONRequest =
  inherited :: 's
  query :: "string \<rightharpoonup> 'n queryValue"

record ('s, 'n) LookupAccountAppLocalStates = "('s, 'n) JSONRequest" +
  account :: string

text \<open>
  Request objects are mutated in place and returned by reference, so they live in a
  store from references to objects. A method takes its receiver \<open>this\<close> and the store,
  and returns its result with the store it leaves.
\<close>

type_synonym ref = nat

type_synonym ('s, 'n) store = "ref \<Rightarrow> ('s, 'n) LookupAccountAppLocalStates"

text \<open>
  \<open>constructor(c, intDecoding, private account) { super(c, intDecoding);
  this.account = account; }\<close>. The base-class constructor is the parameter \<open>super\<close>;
  the new object is written at the fresh reference \<open>this\<close>.
\<close>

definition LookupAccountAppLocalStates_constructor ::
  "('c \<Rightarrow> 'i \<Rightarrow> ('s, 'n) JSONRequest) \<Rightarrow> ref \<Rightarrow> 'c \<Rightarrow> 'i \<Rightarrow> string \<Rightarrow>
   ('s, 'n) store \<Rightarrow> ref \<times> ('s, 'n) store" where
  "LookupAccountAppLocalStates_constructor super this c intDecoding acct h =
     (let base = super c intDecoding
      in (this, h(this := \<lparr> inherited = inherited base, query = query base,
                             account = acct \<rparr>)))"

definition path :: "ref \<Rightarrow> ('s, 'n) store \<Rightarrow> string" where
  "path this h = ''/v2/accounts/'' @ account (h this) @ ''/apps-local-state''"

definition limit :: "ref \<Rightarrow> 'n \<Rightarrow> ('s, 'n) store \<Rightarrow> ref \<times> ('s, 'n) store" where
  "limit this n h =
     (this, h(this := (h this)\<lparr> query := (query (h this))(''limit'' \<mapsto> QNumber n) \<rparr>))"

definition round :: "ref \<Rightarrow> 'n \<Rightarrow> ('s, 'n) store \<Rightarrow> ref \<times> ('s, 'n) store" where
  "round this n h =
     (this, h(this := (h this)\<lparr> query := (query (h this))(''round'' \<mapsto> QNumber n) \<rparr>))"

definition nextToken :: "ref \<Rightarrow> string \<Rightarrow> ('s, 'n) store \<Rightarrow> ref \<times> ('s, 'n) store" where
  "nextToken this tok h =
     (this, h(this := (h this)\<lparr> query := (query (h this))(''next'' \<mapsto> QString tok) \<rparr>))"

text \<open>\<open>includeAll(value = true)\<close>: \<open>None\<close> is the call with the argument left out.\<close>

definition includeAll :: "ref \<Rightarrow> bool option \<Rightarrow> ('s, 'n) store \<Rightarrow> ref \<times> ('s, 'n) store" where
  "includeAll this arg h =
     (let v = (case arg of None \<Rightarrow> True | Some b \<Rightarrow> b)
      in (this, h(this := (h this)\<lparr> query :=
                    (query (h this))(''include-all'' \<mapsto> QBoolean v) \<rparr>)))"

definition applicationID :: "ref \<Rightarrow> 'n \<Rightarrow> ('s, 'n) store \<Rightarrow> ref \<times> ('s, 'n) store" where
  "applicationID this index h =
     (this, h(this := (h this)\<lparr> query :=
                 (query (h this))(''application-id'' \<mapsto> QNumber index) \<rparr>))"

subsection \<open>Sequences of query-builder calls\<close>

text \<open>
  A chain \<open>req.m1(a1).m2(a2)...\<close>: each call is made on the reference the previous call
  returned.
\<close>

datatype 'n builderCall =
    Limit 'n
  | Round 'n
  | NextToken string
  | IncludeAll "bool option"
  | ApplicationID 'n

fun call :: "'n builderCall \<Rightarrow> ref \<Rightarrow> ('s, 'n) store \<Rightarrow> ref \<times> ('s, 'n) store" where
  "call (Limit n) this h = limit this n h"
| "call (Round n) this h = round this n h"
| "call (NextToken tok) this h = nextToken this tok h"
| "call (IncludeAll arg) this h = includeAll this arg h"
| "call (ApplicationID n) this h = applicationID this n h"

fun chain :: "'n builderCall list \<Rightarrow> ref \<Rightarrow> ('s, 'n) store \<Rightarrow> ref \<times> ('s, 'n) store" where
  "chain [] this h = (this, h)"
| "chain (x # xs) this h = (case call x this h of (r, h') \<Rightarrow> chain xs r h')"

section \<open>Properties of OptionalSchema\<close>

text \<open>
  C1. For every inner schema \<open>S\<close> and value \<open>v\<close>, \<open>OptionalSchema(S).isDefaultValue(v)\<close>
  returns true exactly when \<open>v\<close> is \<open>undefined\<close> or \<open>S.isDefaultValue(v)\<close> returns true.
  In particular it returns true on \<open>OptionalSchema(S).defaultValue()\<close>, and on
  \<open>S.defaultValue()\<close> whenever \<open>S.isDefaultValue(S.defaultValue())\<close> does.
\<close>

theorem OptionalSchema_isDefaultValue:
  "(isDefaultValue (OptionalSchema S) v = Inr True
      \<longleftrightarrow> v = Undefined \<or> isDefaultValue S v = Inr True)
   \<and> isDefaultValue (OptionalSchema S) (defaultValue (OptionalSchema S)) = Inr True
   \<and> (isDefaultValue S (defaultValue S) = Inr True
        \<longrightarrow> isDefaultValue (OptionalSchema S) (defaultValue S) = Inr True)"
  by simp

theorem OptionalSchema_isDefaultValue_witness:
  "isDefaultValue exampleSchema (defaultValue exampleSchema) = Inr True
   \<and> isDefaultValue (OptionalSchema exampleSchema) (defaultValue exampleSchema) = Inr True
   \<and> isDefaultValue (OptionalSchema exampleSchema) Undefined = Inr True
   \<and> isDefaultValue (OptionalSchema exampleSchema) (Value (Number 0)) = Inr True
   \<and> isDefaultValue (OptionalSchema exampleSchema) (Value (BigInt 5)) = Inr False"
  using OptionalSchema_isDefaultValue [of exampleSchema "Value (Number 0)"]
  by (simp add: exampleSchema_def exampleImpl_def)

text \<open>
  C2. \<open>OptionalSchema(S).prepareMsgpack(v)\<close> returns \<open>undefined\<close> (encoded as msgpack nil)
  when \<open>v\<close> is \<open>undefined\<close>, and otherwise exactly what \<open>S.prepareMsgpack(v)\<close> returns
  or throws.
\<close>

theorem OptionalSchema_prepareMsgpack:
  "prepareMsgpack (OptionalSchema S) Undefined = Inr Undefined
   \<and> (v \<noteq> Undefined \<longrightarrow> prepareMsgpack (OptionalSchema S) v = prepareMsgpack S v)"
  by simp

theorem OptionalSchema_prepareMsgpack_witness:
  "Value (Number 7) \<noteq> (Undefined :: uintval jsval)
   \<and> prepareMsgpack (OptionalSchema exampleSchema) (Value (Number 7))
       = prepareMsgpack exampleSchema (Value (Number 7))
   \<and> prepareMsgpack (OptionalSchema exampleSchema) (Value (Number 7)) = Inr (Value (BigInt 7))
   \<and> prepareMsgpack (OptionalSchema exampleSchema) Undefined = Inr Undefined"
  using OptionalSchema_prepareMsgpack [of exampleSchema "Value (Number 7)"]
  by (simp add: exampleSchema_def exampleImpl_def)

text \<open>
  C3. \<open>OptionalSchema(S).fromPreparedMsgpack(tree)\<close> returns \<open>undefined\<close> when \<open>tree\<close> is
  \<open>undefined\<close> or \<open>null\<close>, and otherwise exactly what \<open>S.fromPreparedMsgpack(tree)\<close>
  returns or throws.
\<close>

theorem OptionalSchema_fromPreparedMsgpack:
  "fromPreparedMsgpack (OptionalSchema S) Undefined = Inr Undefined
   \<and> fromPreparedMsgpack (OptionalSchema S) Null = Inr Undefined
   \<and> (t \<noteq> Undefined \<and> t \<noteq> Null
        \<longrightarrow> fromPreparedMsgpack (OptionalSchema S) t = fromPreparedMsgpack S t)"
  by simp

theorem OptionalSchema_fromPreparedMsgpack_witness:
  "Value (BigInt 7) \<noteq> (Undefined :: uintval jsval) \<and> Value (BigInt 7) \<noteq> (Null :: uintval jsval)
   \<and> fromPreparedMsgpack (OptionalSchema exampleSchema) (Value (BigInt 7))
       = fromPreparedMsgpack exampleSchema (Value (BigInt 7))
   \<and> fromPreparedMsgpack (OptionalSchema exampleSchema) (Value (BigInt 7))
       = Inr (Value (BigInt 7))
   \<and> fromPreparedMsgpack (OptionalSchema exampleSchema) Null = Inr Undefined
   \<and> fromPreparedMsgpack exampleSchema Null = Inl ''not a uint''"
  using OptionalSchema_fromPreparedMsgpack [of exampleSchema "Value (BigInt 7)"]
  by (simp add: exampleSchema_def exampleImpl_def)

text \<open>
  C4, as the code has it. Constructing \<open>OptionalSchema(OptionalSchema(S))\<close> raises no
  error for any inner schema \<open>S\<close>: the constructor returns a schema whose \<open>valueSchema\<close>
  is \<open>OptionalSchema(S)\<close>, and every method of the nested schema agrees with the same
  method of \<open>OptionalSchema(S)\<close>.
\<close>

theorem OptionalSchema_nested_collapses:
  "OptionalSchema_constructor (OptionalSchema S) = Inr (OptionalSchema (OptionalSchema S))
   \<and> valueSchema (OptionalSchema (OptionalSchema S)) = OptionalSchema S
   \<and> defaultValue (OptionalSchema (OptionalSchema S)) = defaultValue (OptionalSchema S)
   \<and> isDefaultValue (OptionalSchema (OptionalSchema S)) v
       = isDefaultValue (OptionalSchema S) v
   \<and> prepareMsgpack (OptionalSchema (OptionalSchema S)) v
       = prepareMsgpack (OptionalSchema S) v
   \<and> fromPreparedMsgpack (OptionalSchema (OptionalSchema S)) v
       = fromPreparedMsgpack (OptionalSchema S) v
   \<and> prepareJSON (OptionalSchema (OptionalSchema S)) v = prepareJSON (OptionalSchema S) v
   \<and> fromPreparedJSON (OptionalSchema (OptionalSchema S)) v
       = fromPreparedJSON (OptionalSchema S) v"
  by (simp add: OptionalSchema_constructor_def)

text \<open>
  C4, as stated, says that the construction of a doubly nested optional schema is
  rejected with an error. On the example schema the constructor returns the nested
  schema instead.
\<close>

theorem OptionalSchema_nested_accepted:
  "OptionalSchema_constructor (OptionalSchema exampleSchema)
     = Inr (OptionalSchema (OptionalSchema exampleSchema))"
  by (simp add: OptionalSchema_constructor_def)

subsection \<open>The round trip of an optional schema\<close>

lemma msgpackRoundTrip_Optional_Undefined:
  "msgpackRoundTrip (OptionalSchema S) Undefined = Inr Undefined"
  by (simp add: msgpackRoundTrip_def andThen_def)

lemma msgpackRoundTrip_Optional_nil:
  assumes "prepareMsgpack S v = Inr t" and "t = Undefined \<or> t = Null"
  shows "msgpackRoundTrip (OptionalSchema S) v = Inr Undefined"
  using assms by (auto simp: msgpackRoundTrip_def andThen_def)

lemma msgpackRoundTrip_Optional_delegate:
  assumes "v \<noteq> Undefined" and "prepareMsgpack S v = Inr t"
    and "t \<noteq> Undefined" and "t \<noteq> Null"
  shows "msgpackRoundTrip (OptionalSchema S) v = msgpackRoundTrip S v"
  using assms by (simp add: msgpackRoundTrip_def andThen_def)

lemma msgpackRoundTrip_Optional_throw:
  assumes "v \<noteq> Undefined" and "prepareMsgpack S v = Inl e"
  shows "msgpackRoundTrip (OptionalSchema S) v = Inl e"
  using assms by (simp add: msgpackRoundTrip_def andThen_def)

text \<open>
  C5. Let \<open>f\<^sub>S\<close> be the msgpack round trip of the inner schema \<open>S\<close>. If \<open>f\<^sub>S\<close> is
  idempotent, and \<open>S.prepareMsgpack\<close> returns neither \<open>undefined\<close> nor \<open>null\<close> on a
  value of the image of \<open>f\<^sub>S\<close> other than \<open>undefined\<close>, then the round trip \<open>f\<close> of
  \<open>OptionalSchema(S)\<close> satisfies \<open>f(f(v)) = f(v)\<close> for every \<open>v\<close>, also where
  \<open>f(v)\<close> differs from \<open>v\<close>. A round trip that throws propagates its exception.
\<close>

theorem OptionalSchema_roundtrip_idempotent:
  assumes idem: "\<forall>v. andThen (msgpackRoundTrip S v) (msgpackRoundTrip S) = msgpackRoundTrip S v"
    and nonnil: "\<forall>v w. msgpackRoundTrip S v = Inr w \<and> w \<noteq> Undefined \<longrightarrow>
                   prepareMsgpack S w \<noteq> Inr Undefined \<and> prepareMsgpack S w \<noteq> Inr Null"
  shows "andThen (msgpackRoundTrip (OptionalSchema S) v) (msgpackRoundTrip (OptionalSchema S))
         = msgpackRoundTrip (OptionalSchema S) v"
proof (cases "v = Undefined")
  case True
  then show ?thesis
    by (simp add: msgpackRoundTrip_Optional_Undefined andThen_def)
next
  case v: False
  show ?thesis
  proof (cases "prepareMsgpack S v")
    case (Inl e)
    with v show ?thesis
      by (simp add: msgpackRoundTrip_Optional_throw andThen_def)
  next
    case t: (Inr t)
    show ?thesis
    proof (cases "t = Undefined \<or> t = Null")
      case True
      with t show ?thesis
        by (simp add: msgpackRoundTrip_Optional_nil msgpackRoundTrip_Optional_Undefined
            andThen_def)
    next
      case False
      with v t have same: "msgpackRoundTrip (OptionalSchema S) v = msgpackRoundTrip S v"
        by (simp add: msgpackRoundTrip_Optional_delegate)
      show ?thesis
      proof (cases "msgpackRoundTrip S v")
        case (Inl e)
        with same show ?thesis by (simp add: andThen_def)
      next
        case w: (Inr w)
        show ?thesis
        proof (cases "w = Undefined")
          case True
          with same w show ?thesis
            by (simp add: msgpackRoundTrip_Optional_Undefined andThen_def)
        next
          case wdef: False
          from idem w have fixed: "msgpackRoundTrip S w = Inr w"
            by (metis andThen_def sum.case(2))
          from nonnil w wdef
          have nn: "prepareMsgpack S w \<noteq> Inr Undefined" "prepareMsgpack S w \<noteq> Inr Null"
            by blast+
          from fixed obtain t' where t': "prepareMsgpack S w = Inr t'"
            by (cases "prepareMsgpack S w") (simp_all add: msgpackRoundTrip_def andThen_def)
          with nn have "t' \<noteq> Undefined" "t' \<noteq> Null" by auto
          with wdef t' have "msgpackRoundTrip (OptionalSchema S) w = msgpackRoundTrip S w"
            by (simp add: msgpackRoundTrip_Optional_delegate)
          with fixed same w show ?thesis by (simp add: andThen_def)
        qed
      qed
    qed
  qed
qed

lemma ensureUint_Inr: "ensureUint w = Inr t \<Longrightarrow> t \<noteq> Undefined \<and> t \<noteq> Null"
  by (cases w rule: ensureUint.cases) (auto split: if_splits)

lemma example_prepareMsgpack: "prepareMsgpack exampleSchema w = ensureUint w"
  by (simp add: exampleSchema_def exampleImpl_def)

lemma example_roundtrip:
  "msgpackRoundTrip exampleSchema v =
     (case v of Value (Number n) \<Rightarrow> if 0 \<le> n then Inr (Value (BigInt n)) else Inl ''negative''
      | Value (BigInt n) \<Rightarrow> if 0 \<le> n then Inr (Value (BigInt n)) else Inl ''negative''
      | _ \<Rightarrow> Inl ''not a uint'')"
  by (auto simp: msgpackRoundTrip_def andThen_def exampleSchema_def exampleImpl_def
      split: jsval.splits uintval.splits)

theorem OptionalSchema_roundtrip_idempotent_witness:
  "msgpackRoundTrip (OptionalSchema exampleSchema) (Value (Number 5)) = Inr (Value (BigInt 5))
   \<and> andThen (msgpackRoundTrip (OptionalSchema exampleSchema) (Value (Number 5)))
        (msgpackRoundTrip (OptionalSchema exampleSchema))
       = msgpackRoundTrip (OptionalSchema exampleSchema) (Value (Number 5))"
proof -
  have idem: "\<forall>v. andThen (msgpackRoundTrip exampleSchema v) (msgpackRoundTrip exampleSchema)
                = msgpackRoundTrip exampleSchema v"
    by (auto simp: example_roundtrip andThen_def split: jsval.splits uintval.splits)
  have nonnil: "\<forall>v w. msgpackRoundTrip exampleSchema v = Inr w \<and> w \<noteq> Undefined \<longrightarrow>
                  prepareMsgpack exampleSchema w \<noteq> Inr Undefined
                  \<and> prepareMsgpack exampleSchema w \<noteq> Inr Null"
    by (auto simp: example_prepareMsgpack dest: ensureUint_Inr)
  have first: "msgpackRoundTrip (OptionalSchema exampleSchema) (Value (Number 5))
                 = Inr (Value (BigInt 5))"
    by (simp add: msgpackRoundTrip_def andThen_def exampleSchema_def exampleImpl_def)
  show ?thesis
    using OptionalSchema_roundtrip_idempotent [OF idem nonnil, of "Value (Number 5)"] first
    by simp
qed

text \<open>
  C6. \<open>OptionalSchema(S).defaultValue()\<close> returns \<open>undefined\<close> for every inner schema
  \<open>S\<close>, hence differs from \<open>S.defaultValue()\<close> whenever that is not \<open>undefined\<close>.
\<close>

theorem OptionalSchema_defaultValue:
  "defaultValue (OptionalSchema S) = Undefined
   \<and> (defaultValue S \<noteq> Undefined \<longrightarrow> defaultValue (OptionalSchema S) \<noteq> defaultValue S)"
  by simp

theorem OptionalSchema_defaultValue_witness:
  "defaultValue exampleSchema \<noteq> Undefined
   \<and> defaultValue (OptionalSchema exampleSchema) = Undefined
   \<and> defaultValue (OptionalSchema exampleSchema) \<noteq> defaultValue exampleSchema"
  using OptionalSchema_defaultValue [of exampleSchema]
  by (simp add: exampleSchema_def exampleImpl_def)

text \<open>
  C7. \<open>OptionalSchema(S).prepareJSON(v)\<close> returns \<open>null\<close>, not \<open>undefined\<close>, when \<open>v\<close> is
  \<open>undefined\<close>, and otherwise exactly what \<open>S.prepareJSON(v)\<close> returns or throws.
\<close>

theorem OptionalSchema_prepareJSON:
  "prepareJSON (OptionalSchema S) Undefined = Inr Null
   \<and> prepareJSON (OptionalSchema S) Undefined \<noteq> Inr Undefined
   \<and> (v \<noteq> Undefined \<longrightarrow> prepareJSON (OptionalSchema S) v = prepareJSON S v)"
  by simp

theorem OptionalSchema_prepareJSON_witness:
  "Value (Number 7) \<noteq> (Undefined :: uintval jsval)
   \<and> prepareJSON (OptionalSchema exampleSchema) (Value (Number 7))
       = prepareJSON exampleSchema (Value (Number 7))
   \<and> prepareJSON (OptionalSchema exampleSchema) (Value (Number 7)) = Inr (Value (BigInt 7))
   \<and> prepareJSON (OptionalSchema exampleSchema) Undefined = Inr Null"
  using OptionalSchema_prepareJSON [of exampleSchema "Value (Number 7)"]
  by (simp add: exampleSchema_def exampleImpl_def)

text \<open>
  C8. \<open>OptionalSchema(S).fromPreparedJSON(tree)\<close> returns \<open>undefined\<close> when \<open>tree\<close> is
  \<open>null\<close> or \<open>undefined\<close>, and otherwise exactly what \<open>S.fromPreparedJSON(tree)\<close>
  returns or throws.
\<close>

theorem OptionalSchema_fromPreparedJSON:
  "fromPreparedJSON (OptionalSchema S) Null = Inr Undefined
   \<and> fromPreparedJSON (OptionalSchema S) Undefined = Inr Undefined
   \<and> (t \<noteq> Undefined \<and> t \<noteq> Null
        \<longrightarrow> fromPreparedJSON (OptionalSchema S) t = fromPreparedJSON S t)"
  by simp

theorem OptionalSchema_fromPreparedJSON_witness:
  "Value (BigInt 7) \<noteq> (Undefined :: uintval jsval) \<and> Value (BigInt 7) \<noteq> (Null :: uintval jsval)
   \<and> fromPreparedJSON (OptionalSchema exampleSchema) (Value (BigInt 7))
       = fromPreparedJSON exampleSchema (Value (BigInt 7))
   \<and> fromPreparedJSON (OptionalSchema exampleSchema) (Value (BigInt 7))
       = Inr (Value (BigInt 7))
   \<and> fromPreparedJSON (OptionalSchema exampleSchema) Null = Inr Undefined
   \<and> fromPreparedJSON exampleSchema Null = Inl ''not a uint''"
  using OptionalSchema_fromPreparedJSON [of exampleSchema "Value (BigInt 7)"]
  by (simp add: exampleSchema_def exampleImpl_def)

section \<open>Properties of LookupAccountAppLocalStates\<close>

lemma limit_effect:
  "fst (limit this n h) = this
   \<and> query (snd (limit this n h) this) k
       = (if k = ''limit'' then Some (QNumber n) else query (h this) k)
   \<and> account (snd (limit this n h) this) = account (h this)
   \<and> inherited (snd (limit this n h) this) = inherited (h this)
   \<and> path this (snd (limit this n h)) = path this h
   \<and> (snd (limit this n h))(this := h this) = h"
  by (simp add: limit_def path_def)

lemma round_effect:
  "fst (round this n h) = this
   \<and> query (snd (round this n h) this) k
       = (if k = ''round'' then Some (QNumber n) else query (h this) k)
   \<and> account (snd (round this n h) this) = account (h this)
   \<and> inherited (snd (round this n h) this) = inherited (h this)
   \<and> path this (snd (round this n h)) = path this h
   \<and> (snd (round this n h))(this := h this) = h"
  by (simp add: round_def path_def)

lemma nextToken_effect:
  "fst (nextToken this tok h) = this
   \<and> query (snd (nextToken this tok h) this) k
       = (if k = ''next'' then Some (QString tok) else query (h this) k)
   \<and> account (snd (nextToken this tok h) this) = account (h this)
   \<and> inherited (snd (nextToken this tok h) this) = inherited (h this)
   \<and> path this (snd (nextToken this tok h)) = path this h
   \<and> (snd (nextToken this tok h))(this := h this) = h"
  by (simp add: nextToken_def path_def)

lemma includeAll_effect:
  "fst (includeAll this arg h) = this
   \<and> query (snd (includeAll this arg h) this) k
       = (if k = ''include-all''
          then Some (QBoolean (case arg of None \<Rightarrow> True | Some b \<Rightarrow> b))
          else query (h this) k)
   \<and> account (snd (includeAll this arg h) this) = account (h this)
   \<and> inherited (snd (includeAll this arg h) this) = inherited (h this)
   \<and> path this (snd (includeAll this arg h)) = path this h
   \<and> (snd (includeAll this arg h))(this := h this) = h"
  by (simp add: includeAll_def path_def Let_def)

lemma applicationID_effect:
  "fst (applicationID this n h) = this
   \<and> query (snd (applicationID this n h) this) k
       = (if k = ''application-id'' then Some (QNumber n) else query (h this) k)
   \<and> account (snd (applicationID this n h) this) = account (h this)
   \<and> inherited (snd (applicationID this n h) this) = inherited (h this)
   \<and> path this (snd (applicationID this n h)) = path this h
   \<and> (snd (applicationID this n h))(this := h this) = h"
  by (simp add: applicationID_def path_def)

text \<open>
  C9. Each of \<open>limit\<close>, \<open>round\<close>, \<open>nextToken\<close>, \<open>includeAll\<close> and \<open>applicationID\<close> returns
  the reference it was called on and sets one key of the receiver's query (\<open>limit\<close>,
  \<open>round\<close>, \<open>next\<close>, \<open>include-all\<close>, \<open>application-id\<close>) to its argument: every other
  key \<open>k\<close>, the account, the inherited fields, the path and every other object of the
  store are as before. \<open>includeAll\<close> called with no argument stores \<open>true\<close>.
\<close>

theorem builders_return_this_and_set_one_key:
  "(fst (limit this n h) = this
    \<and> query (snd (limit this n h) this) k
        = (if k = ''limit'' then Some (QNumber n) else query (h this) k)
    \<and> account (snd (limit this n h) this) = account (h this)
    \<and> inherited (snd (limit this n h) this) = inherited (h this)
    \<and> path this (snd (limit this n h)) = path this h
    \<and> (snd (limit this n h))(this := h this) = h)
   \<and> (fst (round this n h) = this
    \<and> query (snd (round this n h) this) k
        = (if k = ''round'' then Some (QNumber n) else query (h this) k)
    \<and> account (snd (round this n h) this) = account (h this)
    \<and> inherited (snd (round this n h) this) = inherited (h this)
    \<and> path this (snd (round this n h)) = path this h
    \<and> (snd (round this n h))(this := h this) = h)
   \<and> (fst (nextToken this tok h) = this
    \<and> query (snd (nextToken this tok h) this) k
        = (if k = ''next'' then Some (QString tok) else query (h this) k)
    \<and> account (snd (nextToken this tok h) this) = account (h this)
    \<and> inherited (snd (nextToken this tok h) this) = inherited (h this)
    \<and> path this (snd (nextToken this tok h)) = path this h
    \<and> (snd (nextToken this tok h))(this := h this) = h)
   \<and> (fst (includeAll this (Some b) h) = this
    \<and> query (snd (includeAll this (Some b) h) this) k
        = (if k = ''include-all'' then Some (QBoolean b) else query (h this) k)
    \<and> account (snd (includeAll this (Some b) h) this) = account (h this)
    \<and> inherited (snd (includeAll this (Some b) h) this) = inherited (h this)
    \<and> path this (snd (includeAll this (Some b) h)) = path this h
    \<and> (snd (includeAll this (Some b) h))(this := h this) = h)
   \<and> (fst (includeAll this None h) = this
    \<and> query (snd (includeAll this None h) this) k
        = (if k = ''include-all'' then Some (QBoolean True) else query (h this) k)
    \<and> account (snd (includeAll this None h) this) = account (h this)
    \<and> inherited (snd (includeAll this None h) this) = inherited (h this)
    \<and> path this (snd (includeAll this None h)) = path this h
    \<and> (snd (includeAll this None h))(this := h this) = h)
   \<and> (fst (applicationID this n h) = this
    \<and> query (snd (applicationID this n h) this) k
        = (if k = ''application-id'' then Some (QNumber n) else query (h this) k)
    \<and> account (snd (applicationID this n h) this) = account (h this)
    \<and> inherited (snd (applicationID this n h) this) = inherited (h this)
    \<and> path this (snd (applicationID this n h)) = path this h
    \<and> (snd (applicationID this n h))(this := h this) = h)"
  using limit_effect [of this n h k] round_effect [of this n h k]
    nextToken_effect [of this tok h k] includeAll_effect [of this "Some b" h k]
    includeAll_effect [of this None h k] applicationID_effect [of this n h k]
  by simp

lemma call_this: "fst (call x this h) = this"
  by (cases x) (simp_all add: limit_def round_def nextToken_def includeAll_def applicationID_def)

lemma call_account: "account (snd (call x this h) this) = account (h this)"
  by (cases x) (simp_all add: limit_def round_def nextToken_def includeAll_def applicationID_def)

lemma chain_this_account:
  "fst (chain xs this h) = this \<and> account (snd (chain xs this h) this) = account (h this)"
proof (induction xs arbitrary: h)
  case Nil
  show ?case by simp
next
  case (Cons x xs)
  obtain r h' where step: "call x this h = (r, h')" by (cases "call x this h")
  with call_this [of x this h] have r: "r = this" by simp
  from step call_account [of x this h] have "account (h' this) = account (h this)" by simp
  with Cons.IH [of h'] step r show ?case by simp
qed

text \<open>
  C10. A request constructed with account \<open>a\<close> has the path
  \<open>/v2/accounts/\<close> followed by \<open>a\<close> and \<open>/apps-local-state\<close>, whatever the other
  constructor arguments and the base class are; after any chain \<open>xs\<close> of builder calls
  the chain's result is the same object with the same path, and a chain on any request
  \<open>r\<close> of any store \<open>s\<close> leaves its path as it was.
\<close>

theorem path_of_account:
  "fst (LookupAccountAppLocalStates_constructor super this c intDecoding a h) = this
   \<and> path this (snd (LookupAccountAppLocalStates_constructor super this c intDecoding a h))
       = ''/v2/accounts/'' @ a @ ''/apps-local-state''
   \<and> fst (chain xs this
            (snd (LookupAccountAppLocalStates_constructor super this c intDecoding a h))) = this
   \<and> path this (snd (chain xs this
            (snd (LookupAccountAppLocalStates_constructor super this c intDecoding a h))))
       = ''/v2/accounts/'' @ a @ ''/apps-local-state''
   \<and> path (fst (chain xs r s)) (snd (chain xs r s)) = path r s"
proof -
  let ?h0 = "snd (LookupAccountAppLocalStates_constructor super this c intDecoding a h)"
  have acct: "account (?h0 this) = a"
    by (simp add: LookupAccountAppLocalStates_constructor_def Let_def)
  have "account (snd (chain xs this ?h0) this) = a"
    using chain_this_account [of xs this ?h0] acct by simp
  moreover have "path (fst (chain xs r s)) (snd (chain xs r s)) = path r s"
    using chain_this_account [of xs r s] by (simp add: path_def)
  ultimately show ?thesis
    using acct chain_this_account [of xs this ?h0]
    by (simp add: path_def LookupAccountAppLocalStates_constructor_def Let_def)
qed

end
